theory Spec2Isabelle
  imports Complex_Main "HOL-Library.Char_ord" "HOL-Library.List_Lexorder"
    "HOL-Library.Product_Lexorder"
begin

section \<open>Bank customer churn dashboard (app.py)\<close>

text \<open>
  The program is one Streamlit script, re-executed top to bottom on every interaction. It
  reads a per-country CSV file into a pandas table, then emits a fixed sequence of page
  elements, some of them gated by \<^verbatim>\<open>if column in df.columns\<close>.

  The embedding follows the script line by line:
  \<^item> a table is a row count and an association list of named columns; a column is numeric
    or textual, as \<^verbatim>\<open>read_csv\<close> types it. Tables are complete (the files are
    pre-cleaned): there is no missing-value cell;
  \<^item> every \<^verbatim>\<open>st.*\<close> call appends one element to the page; the page is the list of
    elements emitted, in order;
  \<^item> a Python exception is a value of \<open>py_error\<close>; a run ends normally, by
    \<^verbatim>\<open>st.stop()\<close>, or by an uncaught exception, and keeps what it emitted so far;
  \<^item> a number is the rational a binary64 value denotes. Division and multiplication round
    to the nearest binary64 value (ties to even), as the hardware does; sums are taken
    exactly, which is what pandas computes whenever the partial sums are representable
    (always so for a column of 0/1 flags). Overflow and subnormal numbers are outside the
    model;
  \<^item> static literal text (HTML, captions with characters outside ASCII) is abbreviated.
\<close>

subsection \<open>Binary64 arithmetic and number formatting\<close>

fun bits :: "nat \<Rightarrow> nat" where
  "bits n = (if n = 0 then 0 else Suc (bits (n div 2)))"

declare bits.simps [simp del]

definition pow2 :: "int \<Rightarrow> rat" where
  "pow2 e = (if 0 \<le> e then 2 ^ nat e else 1 / 2 ^ nat (- e))"

text \<open>\<open>ilog2 x\<close> is the binary exponent of a positive \<open>x\<close>: \<open>2 ^ ilog2 x \<le> x < 2 ^ (ilog2 x + 1)\<close>.\<close>

definition ilog2 :: "rat \<Rightarrow> int" where
  "ilog2 x = (if 1 \<le> x then int (bits (nat \<lfloor>x\<rfloor>)) - 1
              else - int (bits (nat (\<lceil>1 / x\<rceil> - 1))))"

definition round_half_even :: "rat \<Rightarrow> int" where
  "round_half_even x =
     (let f = \<lfloor>x\<rfloor>; r = x - of_int f
      in if r < 1 / 2 then f else if 1 / 2 < r then f + 1
         else if even f then f else f + 1)"

text \<open>Rounding to binary64: a 53-bit significand, round to nearest, ties to even.\<close>

definition binary64 :: "rat \<Rightarrow> rat" where
  "binary64 x =
     (if x = 0 then 0
      else let e = ilog2 \<bar>x\<bar> - 52;
               m = round_half_even (\<bar>x\<bar> / pow2 e)
           in sgn x * of_int m * pow2 e)"

datatype pyfloat = Fin rat | NaN

fun float_div :: "rat \<Rightarrow> rat \<Rightarrow> pyfloat" where
  "float_div a b = (if b = 0 then NaN else Fin (binary64 (a / b)))"

fun float_mul :: "pyfloat \<Rightarrow> rat \<Rightarrow> pyfloat" where
  "float_mul NaN c = NaN"
| "float_mul (Fin a) c = Fin (binary64 (a * c))"

fun show_nat :: "nat \<Rightarrow> string" where
  "show_nat n =
     (if n < 10 then [char_of (48 + n)]
      else show_nat (n div 10) @ [char_of (48 + n mod 10)])"

declare show_nat.simps [simp del]

definition two_digits :: "nat \<Rightarrow> string" where
  "two_digits n = [char_of (48 + n div 10 mod 10), char_of (48 + n mod 10)]"

definition three_digits :: "nat \<Rightarrow> string" where
  "three_digits n =
     [char_of (48 + n div 100 mod 10), char_of (48 + n div 10 mod 10), char_of (48 + n mod 10)]"

text \<open>The digits of \<open>f"{d:.2f}"\<close> for a natural number of hundredths \<open>d\<close>.\<close>

definition fixed2 :: "nat \<Rightarrow> string" where
  "fixed2 d = show_nat (d div 100) @ ''.'' @ two_digits (d mod 100)"

fun show_grouped :: "nat \<Rightarrow> string" where
  "show_grouped n =
     (if n < 1000 then show_nat n
      else show_grouped (n div 1000) @ '','' @ three_digits (n mod 1000))"

declare show_grouped.simps [simp del]

text \<open>
  \<open>f"{x:.2f}"\<close> and \<open>f"{x:,.0f}"\<close>: Python prints the decimal nearest to the exact binary
  value, ties to even, and \<open>nan\<close> for a NaN.
\<close>

fun format_2f :: "pyfloat \<Rightarrow> string" where
  "format_2f NaN = ''nan''"
| "format_2f (Fin x) =
     (if x < 0 then ''-'' else '''') @ fixed2 (nat (round_half_even (\<bar>x\<bar> * 100)))"

fun format_comma_0f :: "pyfloat \<Rightarrow> string" where
  "format_comma_0f NaN = ''nan''"
| "format_comma_0f (Fin x) =
     (if x < 0 then ''-'' else '''') @ show_grouped (nat (round_half_even \<bar>x\<bar>))"

text \<open>A value that lies exactly halfway between two consecutive integers.\<close>

definition halfway :: "rat \<Rightarrow> bool" where
  "halfway v \<longleftrightarrow> v - of_int \<lfloor>v\<rfloor> = 1 / 2"

text \<open>
  The churn rate as the specification words it: \<open>100 \<times> k / n\<close>, the exact quotient, printed
  with two decimals by the same formatter.
\<close>

definition exact_churn_rate_text :: "nat \<Rightarrow> nat \<Rightarrow> string" where
  "exact_churn_rate_text k n = format_2f (Fin (100 * of_nat k / of_nat n))"

subsection \<open>Tables\<close>

datatype cell = Num rat | Str string

datatype column = NumCol "rat list" | StrCol "string list"

record dataframe =
  nrows :: nat
  cols :: "(string \<times> column) list"

datatype py_error =
    KeyError string
  | ValueError
  | TypeError
  | FileNotFoundError string

fun cells :: "column \<Rightarrow> cell list" where
  "cells (NumCol xs) = map Num xs"
| "cells (StrCol ss) = map Str ss"

definition columns :: "dataframe \<Rightarrow> string list" where
  "columns df = map fst (cols df)"

definition len :: "dataframe \<Rightarrow> nat" where
  "len df = nrows df"

text \<open>A table is well formed when its column names are distinct and every column has one
  cell per row.\<close>

definition wf_dataframe :: "dataframe \<Rightarrow> bool" where
  "wf_dataframe df \<longleftrightarrow>
     distinct (columns df) \<and> list_all (\<lambda>(n, c). length (cells c) = nrows df) (cols df)"

text \<open>\<open>df[name]\<close>: the column, or \<open>KeyError\<close>.\<close>

definition getitem :: "dataframe \<Rightarrow> string \<Rightarrow> py_error + column" where
  "getitem df name =
     (case map_of (cols df) name of None \<Rightarrow> Inl (KeyError name) | Some c \<Rightarrow> Inr c)"

definition and_then :: "py_error + 'a \<Rightarrow> ('a \<Rightarrow> py_error + 'b) \<Rightarrow> py_error + 'b" where
  "and_then r f = (case r of Inl e \<Rightarrow> Inl e | Inr x \<Rightarrow> f x)"

text \<open>\<open>df.drop(columns=labels)\<close>: \<open>KeyError\<close> for a label that is not a column.\<close>

definition drop :: "dataframe \<Rightarrow> string list \<Rightarrow> py_error + dataframe" where
  "drop df labels =
     (case filter (\<lambda>l. l \<notin> set (columns df)) labels of
        [] \<Rightarrow> Inr (df\<lparr>cols := filter (\<lambda>(n, c). n \<notin> set labels) (cols df)\<rparr>)
      | l # _ \<Rightarrow> Inl (KeyError l))"

fun take_col :: "nat \<Rightarrow> column \<Rightarrow> column" where
  "take_col k (NumCol xs) = NumCol (take k xs)"
| "take_col k (StrCol ss) = StrCol (take k ss)"

text \<open>\<open>df.head()\<close>: the first five rows.\<close>

definition head :: "dataframe \<Rightarrow> dataframe" where
  "head df = \<lparr>nrows = min 5 (nrows df), cols = map (\<lambda>(n, c). (n, take_col 5 c)) (cols df)\<rparr>"

text \<open>\<open>series == v\<close>, elementwise; a text cell never equals a number.\<close>

fun eq_num :: "column \<Rightarrow> rat \<Rightarrow> bool list" where
  "eq_num (NumCol xs) v = map (\<lambda>x. x = v) xs"
| "eq_num (StrCol ss) v = map (\<lambda>s. False) ss"

definition keep :: "bool list \<Rightarrow> 'a list \<Rightarrow> 'a list" where
  "keep flags xs = map snd (filter fst (zip flags xs))"

fun keep_col :: "bool list \<Rightarrow> column \<Rightarrow> column" where
  "keep_col flags (NumCol xs) = NumCol (keep flags xs)"
| "keep_col flags (StrCol ss) = StrCol (keep flags ss)"

text \<open>\<open>df[mask]\<close>: the rows whose flag is set.\<close>

definition select_rows :: "dataframe \<Rightarrow> bool list \<Rightarrow> dataframe" where
  "select_rows df flags =
     \<lparr>nrows = length (filter id (take (nrows df) flags)),
      cols = map (\<lambda>(n, c). (n, keep_col flags c)) (cols df)\<rparr>"

text \<open>\<open>series.sum()\<close>: numbers add up, strings concatenate, and an empty column sums to 0.\<close>

fun Series_sum :: "column \<Rightarrow> cell" where
  "Series_sum (NumCol xs) = Num (sum_list xs)"
| "Series_sum (StrCol ss) = (if ss = [] then Num 0 else Str (concat ss))"

text \<open>\<open>series.mean()\<close>: sum over count as a binary64 division, NaN for an empty column,
  \<open>TypeError\<close> for text.\<close>

definition mean :: "rat list \<Rightarrow> pyfloat" where
  "mean xs = float_div (sum_list xs) (of_nat (length xs))"

fun Series_mean :: "column \<Rightarrow> py_error + pyfloat" where
  "Series_mean (NumCol xs) = Inr (mean xs)"
| "Series_mean (StrCol ss) = (if ss = [] then Inr NaN else Inl TypeError)"

text \<open>
  \<open>series.value_counts()\<close>: one entry per distinct value with the number of its
  occurrences, most frequent first. Values are met in order of first appearance and the
  sort is stable.
\<close>

fun count_value :: "cell \<Rightarrow> (cell \<times> nat) list \<Rightarrow> (cell \<times> nat) list" where
  "count_value v [] = [(v, 1)]"
| "count_value v ((w, n) # rest) =
     (if v = w then (w, Suc n) # rest else (w, n) # count_value v rest)"

definition tally :: "cell list \<Rightarrow> (cell \<times> nat) list" where
  "tally vs = foldl (\<lambda>acc v. count_value v acc) [] vs"

definition value_counts :: "column \<Rightarrow> (cell \<times> nat) list" where
  "value_counts c = sort_key (\<lambda>(v, n). - int n) (tally (cells c))"

text \<open>\<open>counts.idxmax()\<close>: the label of the first largest count; \<open>ValueError\<close> when there
  is none.\<close>

fun first_max :: "(cell \<times> nat) \<Rightarrow> (cell \<times> nat) list \<Rightarrow> cell" where
  "first_max (v, n) [] = v"
| "first_max (v, n) ((w, m) # rest) =
     (if n < m then first_max (w, m) rest else first_max (v, n) rest)"

fun idxmax :: "(cell \<times> nat) list \<Rightarrow> py_error + cell" where
  "idxmax [] = Inl ValueError"
| "idxmax (p # rest) = Inr (first_max p rest)"

text \<open>\<open>counts.rename({0: 'Retained', 1: 'Churned'})\<close>: relabels the index.\<close>

fun rename_label :: "cell \<Rightarrow> cell" where
  "rename_label (Num x) =
     (if x = 0 then Str ''Retained'' else if x = 1 then Str ''Churned'' else Num x)"
| "rename_label (Str s) = Str s"

definition rename_counts :: "(cell \<times> nat) list \<Rightarrow> (cell \<times> nat) list" where
  "rename_counts vc = map (\<lambda>(v, n). (rename_label v, n)) vc"

subsection \<open>The cached loader\<close>

type_synonym filesystem = "string \<Rightarrow> dataframe option"

definition file_map :: "string \<Rightarrow> string option" where
  "file_map =
     [''France'' \<mapsto> ''france_df.csv'', ''Germany'' \<mapsto> ''germany_df.csv'',
      ''Spain'' \<mapsto> ''spain_df.csv'']"

definition cols_to_drop :: "string list" where
  "cols_to_drop = [''Unnamed: 0'', ''RowNumber'']"

definition read_csv :: "filesystem \<Rightarrow> string \<Rightarrow> py_error + dataframe" where
  "read_csv fs path =
     (case fs path of None \<Rightarrow> Inl (FileNotFoundError path) | Some df \<Rightarrow> Inr df)"

text \<open>The body of \<open>load_country_data\<close>, lines 17 to 28.\<close>

definition load_country_data_body :: "filesystem \<Rightarrow> string \<Rightarrow> py_error + dataframe" where
  "load_country_data_body fs selected_country =
     (case file_map selected_country of
        None \<Rightarrow> Inl (KeyError selected_country)
      | Some path \<Rightarrow>
          and_then (read_csv fs path)
            (\<lambda>df. drop df (filter (\<lambda>col. col \<in> set (columns df)) cols_to_drop)))"

text \<open>
  \<open>@st.cache_data\<close>: a process-wide memo table keyed by the argument. A hit returns the
  stored value without running the body; a miss runs the body and stores what it returns;
  an exception stores nothing.
\<close>

type_synonym cache = "string \<Rightarrow> dataframe option"

definition cache_data ::
  "(string \<Rightarrow> py_error + dataframe) \<Rightarrow> cache \<Rightarrow> string \<Rightarrow> (py_error + dataframe) \<times> cache" where
  "cache_data body cache arg =
     (case cache arg of
        Some df \<Rightarrow> (Inr df, cache)
      | None \<Rightarrow>
          (case body arg of
             Inl e \<Rightarrow> (Inl e, cache)
           | Inr df \<Rightarrow> (Inr df, cache(arg \<mapsto> df))))"

definition load_country_data ::
  "filesystem \<Rightarrow> cache \<Rightarrow> string \<Rightarrow> (py_error + dataframe) \<times> cache" where
  "load_country_data fs cache selected_country =
     cache_data (load_country_data_body fs) cache selected_country"

subsection \<open>Grouped means\<close>

text \<open>
  \<open>df.groupby([k1, k2])[v].mean().reset_index()\<close>: the rows are partitioned by their pair
  of key cells; every group keeps a running sum and a count; the groups come out ordered
  by key, each with its mean.
\<close>

type_synonym group_key = "cell \<times> cell"

fun add_to_group ::
  "group_key \<Rightarrow> rat \<Rightarrow> (group_key \<times> rat \<times> nat) list \<Rightarrow> (group_key \<times> rat \<times> nat) list" where
  "add_to_group k x [] = [(k, x, 1)]"
| "add_to_group k x ((k', s, n) # rest) =
     (if k = k' then (k', s + x, Suc n) # rest else (k', s, n) # add_to_group k x rest)"

definition group_sums :: "(group_key \<times> rat) list \<Rightarrow> (group_key \<times> rat \<times> nat) list" where
  "group_sums rows = foldl (\<lambda>acc (k, x). add_to_group k x acc) [] rows"


fun cell_key :: "cell \<Rightarrow> bool \<times> rat \<times> string" where
  "cell_key (Num x) = (False, x, [])"
| "cell_key (Str s) = (True, 0, s)"

definition group_means :: "(group_key \<times> rat) list \<Rightarrow> (group_key \<times> rat) list" where
  "group_means rows =
     map (\<lambda>(k, s, n). (k, binary64 (s / of_nat n)))
       (sort_key (\<lambda>(k, s, n). (cell_key (fst k), cell_key (snd k))) (group_sums rows))"

fun column_like :: "column \<Rightarrow> cell list \<Rightarrow> column" where
  "column_like (NumCol xs) vs = NumCol (concat (map (\<lambda>v. case v of Num x \<Rightarrow> [x] | Str s \<Rightarrow> []) vs))"
| "column_like (StrCol ss) vs = StrCol (concat (map (\<lambda>v. case v of Num x \<Rightarrow> [] | Str s \<Rightarrow> [s]) vs))"

definition groupby_mean ::
  "dataframe \<Rightarrow> string \<Rightarrow> string \<Rightarrow> string \<Rightarrow> py_error + dataframe" where
  "groupby_mean df k1 k2 v =
     and_then (getitem df k1) (\<lambda>c1.
     and_then (getitem df k2) (\<lambda>c2.
     and_then (getitem df v) (\<lambda>cv.
       case cv of
         StrCol ss \<Rightarrow>
           if ss = [] then
             Inr \<lparr>nrows = 0, cols = [(k1, column_like c1 []), (k2, column_like c2 []), (v, NumCol [])]\<rparr>
           else Inl TypeError
       | NumCol xs \<Rightarrow>
           let g = group_means (zip (zip (cells c1) (cells c2)) xs)
           in Inr \<lparr>nrows = length g,
                   cols = [(k1, column_like c1 (map (\<lambda>(k, m). fst k) g)),
                           (k2, column_like c2 (map (\<lambda>(k, m). snd k) g)),
                           (v, NumCol (map snd g))]\<rparr>)))"

subsection \<open>Page elements and runs\<close>

text \<open>A Plotly Express figure, by the data it draws: its title, then the columns named in
  the call (\<open>x\<close> and \<open>color\<close> for a histogram; \<open>x\<close>, \<open>y\<close> and \<open>color\<close> for a box plot and a
  bar chart), or the values and the names of a pie.\<close>

datatype figure =
    Histogram string column column
  | Box string column column column
  | Bar string column column column
  | Pie string "nat list" "cell list"

record insight =
  heading_color :: string
  country_name :: string
  churn_rate_text :: string
  avg_salary_churned_text :: string
  top_card :: cell
  common_agegroup :: cell
  avg_salary_retained_text :: string

datatype element =
    Set_page_config string
  | St_title string
  | Sidebar_title string
  | Sidebar_selectbox string "string list"
  | St_error string
  | St_markdown string
  | St_dataframe dataframe
  | St_columns nat
  | St_metric string cell
  | St_plotly_chart figure
  | Insight_box insight
  | St_expander string

datatype stop = Stopped | Fault py_error

text \<open>What a stretch of the script does: the elements it emits and, when it does not run
  to its end, why.\<close>

type_synonym run = "element list \<times> stop option"

text \<open>Statements in sequence: the first one that stops ends the run.\<close>

fun run_all :: "run list \<Rightarrow> run" where
  "run_all [] = ([], None)"
| "run_all ((out, Some s) # rest) = (out, Some s)"
| "run_all ((out, None) # rest) = (out @ fst (run_all rest), snd (run_all rest))"

definition emit :: "element list \<Rightarrow> run" where
  "emit es = (es, None)"

definition skip :: run where
  "skip = ([], None)"

text \<open>\<open>st.plotly_chart(fig)\<close> after building \<open>fig\<close>, which may raise.\<close>

definition plotly_chart :: "py_error + figure \<Rightarrow> run" where
  "plotly_chart r = (case r of Inl e \<Rightarrow> ([], Some (Fault e)) | Inr fig \<Rightarrow> ([St_plotly_chart fig], None))"

text \<open>Plotly Express looks the named columns up in the frame and raises \<open>ValueError\<close> for
  a name that is not a column.\<close>

definition px_col :: "dataframe \<Rightarrow> string \<Rightarrow> py_error + column" where
  "px_col df name = (case map_of (cols df) name of None \<Rightarrow> Inl ValueError | Some c \<Rightarrow> Inr c)"

definition px_histogram :: "dataframe \<Rightarrow> string \<Rightarrow> string \<Rightarrow> string \<Rightarrow> py_error + figure" where
  "px_histogram df xn cn t =
     and_then (px_col df xn) (\<lambda>xc. and_then (px_col df cn) (\<lambda>cc. Inr (Histogram t xc cc)))"

definition px_box ::
  "dataframe \<Rightarrow> string \<Rightarrow> string \<Rightarrow> string \<Rightarrow> string \<Rightarrow> py_error + figure" where
  "px_box df xn yn cn t =
     and_then (px_col df xn) (\<lambda>xc. and_then (px_col df yn) (\<lambda>yc.
     and_then (px_col df cn) (\<lambda>cc. Inr (Box t xc yc cc))))"

definition px_bar ::
  "dataframe \<Rightarrow> string \<Rightarrow> string \<Rightarrow> string \<Rightarrow> string \<Rightarrow> py_error + figure" where
  "px_bar df xn yn cn t =
     and_then (px_col df xn) (\<lambda>xc. and_then (px_col df yn) (\<lambda>yc.
     and_then (px_col df cn) (\<lambda>cc. Inr (Bar t xc yc cc))))"

definition px_pie :: "(cell \<times> nat) list \<Rightarrow> string \<Rightarrow> figure" where
  "px_pie counts t = Pie t (map snd counts) (map fst counts)"

definition or_fault :: "py_error + run \<Rightarrow> run" where
  "or_fault r = (case r of Inl e \<Rightarrow> ([], Some (Fault e)) | Inr body \<Rightarrow> body)"

subsection \<open>The script\<close>

text \<open>\<open>name in df.columns\<close> (and \<open>name in df\<close>, which tests the same thing).\<close>

definition has_column :: "dataframe \<Rightarrow> string \<Rightarrow> bool" where
  "has_column df name \<longleftrightarrow> name \<in> set (columns df)"

definition countries :: "string list" where
  "countries = [''France'', ''Germany'', ''Spain'']"

text \<open>\<open>st.sidebar.selectbox\<close> returns the option the user picked, the first option when
  nothing valid is picked.\<close>

definition selectbox :: "string list \<Rightarrow> string \<Rightarrow> string" where
  "selectbox options choice =
     (case options of [] \<Rightarrow> [] | first # _ \<Rightarrow> if choice \<in> set options then choice else first)"

text \<open>Lines 6 to 31: everything emitted before the table is loaded. The dropdown is
  created at line 13 and again at line 31.\<close>

definition preamble :: "element list" where
  "preamble =
     [Set_page_config ''Bank Customer Churn Dashboard'',
      St_title ''Bank Customer Churn Dashboard'',
      Sidebar_title ''Select Country'',
      Sidebar_selectbox ''Choose a country'' countries,
      Sidebar_selectbox ''Choose a country'' countries]"

text \<open>Lines 36 to 38.\<close>

definition exited_check :: "dataframe \<Rightarrow> run" where
  "exited_check df =
     (if \<not> has_column df ''Exited''
      then ([St_error ''The expected column `Exited` is not found in the dataset.''], Some Stopped)
      else skip)"

text \<open>Lines 41 and 42.\<close>

definition overview :: "string \<Rightarrow> dataframe \<Rightarrow> run" where
  "overview country df =
     emit [St_markdown (''### Dataset Overview - '' @ country), St_dataframe (head df)]"

text \<open>Line 51: \<open>churn_rate = df['Exited'].mean() * 100\<close>.\<close>

definition churn_rate :: "dataframe \<Rightarrow> py_error + pyfloat" where
  "churn_rate df =
     and_then (getitem df ''Exited'') (\<lambda>ex.
     and_then (Series_mean ex) (\<lambda>m. Inr (float_mul m 100)))"

text \<open>Lines 45 to 52.\<close>

definition metrics :: "dataframe \<Rightarrow> run" where
  "metrics df =
     run_all
       [emit [St_columns 3, St_metric ''Total Customers'' (Num (of_nat (len df)))],
        or_fault (and_then (getitem df ''Exited'') (\<lambda>ex.
          Inr (emit [St_metric ''Churned Customers'' (Series_sum ex)]))),
        or_fault (and_then (churn_rate df) (\<lambda>r.
          Inr (emit [St_metric ''Churn Rate (%)'' (Str (format_2f r))])))]"

text \<open>Lines 55 to 60.\<close>

definition plot_fig1 :: "dataframe \<Rightarrow> run" where
  "plot_fig1 df = plotly_chart (px_histogram df ''Exited'' ''Exited'' ''Churn Distribution'')"

text \<open>Lines 63 to 66.\<close>

definition plot_fig2 :: "dataframe \<Rightarrow> run" where
  "plot_fig2 df =
     (if has_column df ''Gender''
      then plotly_chart (px_histogram df ''Gender'' ''Exited'' ''Churn by Gender'')
      else skip)"

text \<open>Lines 69 to 72.\<close>

definition plot_fig3 :: "dataframe \<Rightarrow> run" where
  "plot_fig3 df =
     (if has_column df ''Age''
      then plotly_chart
             (px_box df ''Exited'' ''Age'' ''Exited'' ''Age Distribution by Churn Status'')
      else skip)"

text \<open>Lines 75 to 78.\<close>

definition plot_fig4 :: "dataframe \<Rightarrow> run" where
  "plot_fig4 df =
     (if has_column df ''CreditScore''
      then plotly_chart
             (px_histogram df ''CreditScore'' ''Exited'' ''Credit Score Distribution by Churn'')
      else skip)"

text \<open>Lines 80 to 84.\<close>

definition plot_fig5 :: "dataframe \<Rightarrow> run" where
  "plot_fig5 df =
     (if has_column df ''AgeGroup'' \<and> has_column df ''EstimatedSalary''
      then run_all
             [emit [St_markdown ''### Estimated Salary by Age Group (Box Plot)''],
              plotly_chart
                (px_box df ''AgeGroup'' ''EstimatedSalary'' ''AgeGroup''
                   ''Estimated Salary Distribution Across Age Groups'')]
      else skip)"

text \<open>Line 89.\<close>

definition grouped_df :: "dataframe \<Rightarrow> py_error + dataframe" where
  "grouped_df df = groupby_mean df ''AgeGroup'' ''Card Type'' ''EstimatedSalary''"

text \<open>Lines 87 to 93.\<close>

definition plot_fig6 :: "dataframe \<Rightarrow> run" where
  "plot_fig6 df =
     (if has_column df ''AgeGroup'' \<and> has_column df ''Card Type''
      then run_all
             [emit [St_markdown ''### Avg Estimated Salary by Age Group & Card Type''],
              plotly_chart
                (and_then (grouped_df df) (\<lambda>g.
                   px_bar g ''AgeGroup'' ''EstimatedSalary'' ''Card Type''
                     ''Average Estimated Salary by Age Group and Card Type''))]
      else skip)"

text \<open>Line 97.\<close>

definition churn_counts :: "dataframe \<Rightarrow> py_error + (cell \<times> nat) list" where
  "churn_counts df =
     and_then (getitem df ''Exited'') (\<lambda>ex. Inr (rename_counts (value_counts ex)))"

text \<open>Lines 96 to 100.\<close>

definition plot_fig7 :: "dataframe \<Rightarrow> run" where
  "plot_fig7 df =
     run_all
       [emit [St_markdown ''### Churn Breakdown''],
        plotly_chart (and_then (churn_counts df) (\<lambda>counts.
          Inr (px_pie counts ''Churn vs Retention'')))]"

text \<open>Lines 103 to 107.\<close>

definition plot_fig8 :: "dataframe \<Rightarrow> run" where
  "plot_fig8 df =
     (if has_column df ''Tenure''
      then run_all
             [emit [St_markdown ''### Churn by Tenure''],
              plotly_chart
                (px_histogram df ''Tenure'' ''Exited'' ''Churn Distribution by Customer Tenure'')]
      else skip)"

text \<open>Lines 109 to 122. The \<open>category_orders\<close> argument is keyed by a name that is not a
  column of the frame, so it orders nothing; sorting the values of one typed column
  cannot fail.\<close>

definition plot_fig9 :: "dataframe \<Rightarrow> run" where
  "plot_fig9 df =
     (if has_column df ''CreditScoreCategory''
      then run_all
             [emit [St_markdown ''### Churn by Credit Score Category''],
              plotly_chart
                (px_histogram df ''CreditScoreCategory'' ''Exited''
                   ''Churn Distribution Across Credit Score Categories'')]
      else skip)"

text \<open>Lines 128 and 129.\<close>

definition churned :: "dataframe \<Rightarrow> py_error + dataframe" where
  "churned df = and_then (getitem df ''Exited'') (\<lambda>ex. Inr (select_rows df (eq_num ex 1)))"

definition retained :: "dataframe \<Rightarrow> py_error + dataframe" where
  "retained df = and_then (getitem df ''Exited'') (\<lambda>ex. Inr (select_rows df (eq_num ex 0)))"

text \<open>Lines 131 and 132, for either subset.\<close>

definition avg_salary :: "dataframe \<Rightarrow> py_error + pyfloat" where
  "avg_salary part = and_then (getitem part ''EstimatedSalary'') Series_mean"

text \<open>Lines 134 and 135, for either column.\<close>

definition most_common :: "dataframe \<Rightarrow> string \<Rightarrow> py_error + cell" where
  "most_common part name =
     (if has_column part name
      then and_then (getitem part name) (\<lambda>c. idxmax (value_counts c))
      else Inr (Str ''N/A''))"

definition country_heading_colors :: "string \<Rightarrow> string option" where
  "country_heading_colors =
     [''France'' \<mapsto> ''#0055A4'', ''Germany'' \<mapsto> ''#D00000'', ''Spain'' \<mapsto> ''#FFC400'']"

text \<open>Lines 128 to 181: the values the template interpolates. \<open>churn_rate\<close> is the variable
  of line 51.\<close>

definition insight_values :: "string \<Rightarrow> dataframe \<Rightarrow> py_error + insight" where
  "insight_values country df =
     and_then (churned df) (\<lambda>ch.
     and_then (retained df) (\<lambda>re.
     and_then (avg_salary ch) (\<lambda>avg_salary_churned.
     and_then (avg_salary re) (\<lambda>avg_salary_retained.
     and_then (most_common ch ''Card Type'') (\<lambda>top_card_churned.
     and_then (most_common ch ''AgeGroup'') (\<lambda>common_agegroup_churned.
     and_then (churn_rate df) (\<lambda>rate.
       Inr \<lparr>heading_color =
              (case country_heading_colors country of None \<Rightarrow> ''#FFD700'' | Some c \<Rightarrow> c),
            country_name = country,
            churn_rate_text = format_2f rate,
            avg_salary_churned_text = format_comma_0f avg_salary_churned,
            top_card = top_card_churned,
            common_agegroup = common_agegroup_churned,
            avg_salary_retained_text = format_comma_0f avg_salary_retained\<rparr>)))))))"

text \<open>Lines 125 to 185.\<close>

definition insights :: "string \<Rightarrow> dataframe \<Rightarrow> run" where
  "insights country df =
     run_all
       [emit [St_markdown ''## Key Findings & Insights''],
        or_fault (and_then (insight_values country df) (\<lambda>box.
          Inr (emit [Insight_box box, St_markdown ''---''])))]"

text \<open>Lines 188 to 220: the link buttons and the questions, all static.\<close>

definition connect_and_faq :: run where
  "connect_and_faq =
     emit [St_markdown ''## Connect with Me'', St_columns 2,
           St_markdown ''LinkedIn Profile'', St_markdown ''GitHub Projects'',
           St_markdown ''## Frequently Asked Questions'',
           St_expander ''What does churn mean in this dashboard?'',
           St_expander ''How is churn rate calculated?'',
           St_expander ''What is the meaning of Card Type?'',
           St_expander ''How was this dashboard built?'']"

text \<open>Lines 36 to 220, for the table \<open>df\<close> of the selected country.\<close>

definition render :: "string \<Rightarrow> dataframe \<Rightarrow> run" where
  "render country df =
     run_all
       [exited_check df, overview country df, metrics df,
        plot_fig1 df, plot_fig2 df, plot_fig3 df, plot_fig4 df, plot_fig5 df, plot_fig6 df,
        plot_fig7 df, plot_fig8 df, plot_fig9 df,
        insights country df, connect_and_faq]"

text \<open>The statements of \<open>render\<close> that come before the pie chart.\<close>

definition before_fig7 :: "string \<Rightarrow> dataframe \<Rightarrow> run list" where
  "before_fig7 country df =
     [exited_check df, overview country df, metrics df,
      plot_fig1 df, plot_fig2 df, plot_fig3 df, plot_fig4 df, plot_fig5 df, plot_fig6 df]"

text \<open>The whole script: the user's pick in the dropdown, the files on disk and the cache
  as the process holds it go in; the page and the cache come out.\<close>

definition app :: "string \<Rightarrow> filesystem \<Rightarrow> cache \<Rightarrow> run \<times> cache" where
  "app choice fs cache =
     (let country = selectbox countries choice;
          loaded = load_country_data fs cache country
      in case fst loaded of
           Inl e \<Rightarrow> ((preamble, Some (Fault e)), snd loaded)
         | Inr df \<Rightarrow>
             ((preamble @ fst (render country df), snd (render country df)), snd loaded))"

text \<open>The input widgets among the page elements: the dropdowns.\<close>

fun is_input_widget :: "element \<Rightarrow> bool" where
  "is_input_widget (Sidebar_selectbox label options) = True"
| "is_input_widget other = False"

text \<open>Two tables with the same number of rows that hold the same column under every name
  but \<open>t\<close>.\<close>

definition agree_except :: "string \<Rightarrow> dataframe \<Rightarrow> dataframe \<Rightarrow> bool" where
  "agree_except t df df' \<longleftrightarrow>
     nrows df' = nrows df \<and> (\<forall>k. k \<noteq> t \<longrightarrow> map_of (cols df') k = map_of (cols df) k)"

fun is_pie_chart :: "element \<Rightarrow> bool" where
  "is_pie_chart (St_plotly_chart (Pie t vs ns)) = True"
| "is_pie_chart other = False"

fun is_insight_box :: "element \<Rightarrow> bool" where
  "is_insight_box (Insight_box b) = True"
| "is_insight_box other = False"

subsection \<open>Sample inputs\<close>

text \<open>A France file with an index column, two customers, one of them churned.\<close>

definition sample_table :: dataframe where
  "sample_table =
     \<lparr>nrows = 2,
      cols = [(''Unnamed: 0'', NumCol [0, 1]), (''Exited'', NumCol [1, 0]),
              (''EstimatedSalary'', NumCol [1000, 3000]),
              (''Card Type'', StrCol [''GOLD'', ''SILVER''])]\<rparr>"

definition sample_files :: filesystem where
  "sample_files = (\<lambda>path. if path = ''france_df.csv'' then Some sample_table else None)"

text \<open>What the loader makes of it.\<close>

definition sample_loaded :: dataframe where
  "sample_loaded =
     \<lparr>nrows = 2,
      cols = [(''Exited'', NumCol [1, 0]), (''EstimatedSalary'', NumCol [1000, 3000]),
              (''Card Type'', StrCol [''GOLD'', ''SILVER''])]\<rparr>"

text \<open>A file without the churn flag.\<close>

definition files_without_exited :: filesystem where
  "files_without_exited =
     (\<lambda>path. if path = ''spain_df.csv''
        then Some \<lparr>nrows = 1, cols = [(''RowNumber'', NumCol [1]), (''Gender'', StrCol [''Male''])]\<rparr>
        else None)"

text \<open>A table with age groups and card types but no salaries.\<close>

definition table_without_salary :: dataframe where
  "table_without_salary =
     \<lparr>nrows = 1,
      cols = [(''Exited'', NumCol [1]), (''AgeGroup'', StrCol [''30-40'']),
              (''Card Type'', StrCol [''GOLD''])]\<rparr>"

text \<open>A table with the churn flag and card types only.\<close>

definition table_cards_only :: dataframe where
  "table_cards_only =
     \<lparr>nrows = 2,
      cols = [(''Exited'', NumCol [1, 0]), (''Card Type'', StrCol [''GOLD'', ''SILVER''])]\<rparr>"

text \<open>A table in which no customer churned.\<close>

definition table_none_churned :: dataframe where
  "table_none_churned =
     \<lparr>nrows = 2,
      cols = [(''Exited'', NumCol [0, 0]), (''EstimatedSalary'', NumCol [1000, 3000]),
              (''Card Type'', StrCol [''GOLD'', ''SILVER''])]\<rparr>"

text \<open>A table with a \<open>Tenure\<close> column, and the same table without it.\<close>

definition table_with_tenure :: dataframe where
  "table_with_tenure =
     \<lparr>nrows = 2,
      cols = [(''Exited'', NumCol [1, 0]), (''Tenure'', NumCol [3, 7]),
              (''Gender'', StrCol [''Male'', ''Female''])]\<rparr>"

definition table_tenure_removed :: dataframe where
  "table_tenure_removed =
     \<lparr>nrows = 2,
      cols = [(''Exited'', NumCol [1, 0]), (''Gender'', StrCol [''Male'', ''Female''])]\<rparr>"

text \<open>A table of three customers, one of them churned, with the churn flag only.\<close>

definition table01 :: dataframe where
  "table01 = \<lparr>nrows = 3, cols = [(''Exited'', NumCol [0, 1, 0])]\<rparr>"


text \<open>160 customers of whom 23 churned, and 1000 customers of whom 203 churned.\<close>

definition table160 :: dataframe where
  "table160 = \<lparr>nrows = 160, cols = [(''Exited'', NumCol (replicate 23 1 @ replicate 137 0))]\<rparr>"

definition table1000 :: dataframe where
  "table1000 =
     \<lparr>nrows = 1000, cols = [(''Exited'', NumCol (replicate 203 1 @ replicate 797 0))]\<rparr>"

section \<open>Properties\<close>

lemmas script_defs =
  render_def exited_check_def overview_def metrics_def plot_fig1_def plot_fig2_def
  plot_fig3_def plot_fig4_def plot_fig5_def plot_fig6_def plot_fig7_def plot_fig8_def
  plot_fig9_def insights_def insight_values_def connect_and_faq_def has_column_def
  columns_def skip_def emit_def or_fault_def plotly_chart_def px_histogram_def px_box_def
  px_bar_def px_col_def px_pie_def and_then_def getitem_def grouped_df_def groupby_mean_def
  churn_counts_def churn_rate_def churned_def retained_def avg_salary_def most_common_def
  select_rows_def mean_def

lemmas loader_defs =
  load_country_data_def cache_data_def load_country_data_body_def file_map_def read_csv_def
  drop_def cols_to_drop_def columns_def and_then_def countries_def selectbox_def

subsection \<open>The loader and its cache\<close>

lemma sample_load:
  "load_country_data sample_files Map.empty ''France'' =
     (Inr sample_loaded, [''France'' \<mapsto> sample_loaded])"
  by (simp add: loader_defs sample_files_def sample_table_def sample_loaded_def)

text \<open>
  C7. For each of the three countries, once a call of the loader has returned a table,
  a second call with the same country returns that same table and leaves the cache as it
  is, whatever the files now hold: the file is not read again.
\<close>

theorem load_country_data_cached:
  assumes "country \<in> set countries"
    and "load_country_data fs cache country = (Inr df, cache')"
  shows "load_country_data fs' cache' country = (Inr df, cache')"
  using assms(2)
  by (auto simp: load_country_data_def cache_data_def split: option.splits sum.splits)

theorem load_country_data_cached_witness:
  "load_country_data (\<lambda>path. None) [''France'' \<mapsto> sample_loaded] ''France'' =
     (Inr sample_loaded, [''France'' \<mapsto> sample_loaded])"
proof (rule load_country_data_cached)
  show "''France'' \<in> set countries"
    by (simp add: countries_def)
  show "load_country_data sample_files Map.empty ''France'' =
     (Inr sample_loaded, [''France'' \<mapsto> sample_loaded])"
    by (rule sample_load)
qed

subsection \<open>The missing churn flag\<close>

lemma render_without_exited:
  "\<not> has_column df ''Exited'' \<Longrightarrow>
   render country df =
     ([St_error ''The expected column `Exited` is not found in the dataset.''], Some Stopped)"
  by (simp add: render_def exited_check_def)

text \<open>
  C2. When the loaded table has no \<open>Exited\<close> column, the page is what was emitted before
  the check (the same elements as in every run) followed by the error message, and the run
  is stopped there: no metric, chart, insight or later section follows.
\<close>

theorem missing_exited_halts:
  assumes "fst (load_country_data fs cache (selectbox countries choice)) = Inr df"
    and "\<not> has_column df ''Exited''"
  shows "fst (app choice fs cache) =
     (preamble @ [St_error ''The expected column `Exited` is not found in the dataset.''],
      Some Stopped)"
  using assms by (simp add: app_def Let_def render_without_exited)

theorem missing_exited_halts_witness:
  "fst (app ''Spain'' files_without_exited Map.empty) =
     (preamble @ [St_error ''The expected column `Exited` is not found in the dataset.''],
      Some Stopped)"
proof (rule missing_exited_halts)
  show "fst (load_country_data files_without_exited Map.empty (selectbox countries ''Spain'')) =
     Inr \<lparr>nrows = 1, cols = [(''Gender'', StrCol [''Male''])]\<rparr>"
    by (simp add: loader_defs files_without_exited_def)
  show "\<not> has_column \<lparr>nrows = 1, cols = [(''Gender'', StrCol [''Male''])]\<rparr> ''Exited''"
    by (simp add: has_column_def columns_def)
qed

subsection \<open>Runs\<close>

lemma run_all_filter_empty:
  "list_all (\<lambda>r. filter P (fst r) = []) rs \<Longrightarrow> filter P (fst (run_all rs)) = []"
  by (induction rs rule: run_all.induct) auto

lemma run_all_stops:
  "r \<in> set rs \<Longrightarrow> snd r \<noteq> None \<Longrightarrow> snd (run_all rs) \<noteq> None"
  by (induction rs rule: run_all.induct) auto

lemma run_all_not_stopped:
  "list_all (\<lambda>r. snd r \<noteq> Some Stopped) rs \<Longrightarrow> snd (run_all rs) \<noteq> Some Stopped"
  by (induction rs rule: run_all.induct) auto

lemma plotly_chart_no_widget: "filter is_input_widget (fst (plotly_chart r)) = []"
  by (simp add: plotly_chart_def split: sum.splits)

lemma plotly_chart_no_box: "filter is_insight_box (fst (plotly_chart r)) = []"
  by (simp add: plotly_chart_def split: sum.splits)

lemma plotly_chart_not_stopped: "snd (plotly_chart r) \<noteq> Some Stopped"
  by (simp add: plotly_chart_def split: sum.splits)

lemmas section_defs =
  exited_check_def overview_def metrics_def plot_fig1_def plot_fig2_def plot_fig3_def
  plot_fig4_def plot_fig5_def plot_fig6_def plot_fig7_def plot_fig8_def plot_fig9_def
  insights_def connect_and_faq_def skip_def emit_def

subsection \<open>The dropdown\<close>

lemma render_no_widget: "filter is_input_widget (fst (render country df)) = []"
  unfolding render_def
  apply (rule run_all_filter_empty)
  apply (simp add: section_defs plotly_chart_no_widget run_all_filter_empty)
  apply (auto simp: or_fault_def and_then_def emit_def split: sum.splits)
  done

text \<open>
  C9. The claim is that a render creates exactly one dropdown and no other input widget.
  The script creates the country dropdown at line 13 and again at line 31, with the same
  label and options: every run emits two input widgets, whatever the user picks and
  whatever the files hold.
\<close>

theorem app_creates_two_dropdowns:
  "filter is_input_widget (fst (fst (app choice fs cache))) =
     [Sidebar_selectbox ''Choose a country'' countries,
      Sidebar_selectbox ''Choose a country'' countries]"
  by (simp add: app_def Let_def preamble_def render_no_widget split: sum.splits)

theorem app_creates_two_dropdowns_witness:
  "length (filter is_input_widget (fst (fst (app ''France'' sample_files Map.empty)))) = 2"
  by (simp add: app_creates_two_dropdowns [of "''France''" sample_files Map.empty])

subsection \<open>Charts gated by column presence\<close>

text \<open>
  C1. The claim is that a chart is drawn exactly when all the columns it needs are present,
  and that a missing column never raises. The grouped bar chart needs \<open>AgeGroup\<close>,
  \<open>Card Type\<close> and \<open>EstimatedSalary\<close>, but its gate at line 87 tests the first two only
  (the gate of the box plot at line 80 does test \<open>EstimatedSalary\<close>). On a table with age
  groups and card types and no salaries the section emits its heading, then line 89 raises
  \<open>KeyError\<close> and the run ends there.
\<close>

theorem grouped_bar_raises_without_salary:
  "plot_fig6 table_without_salary =
     ([St_markdown ''### Avg Estimated Salary by Age Group & Card Type''],
      Some (Fault (KeyError ''EstimatedSalary''))) \<and>
   snd (render ''France'' table_without_salary) = Some (Fault (KeyError ''EstimatedSalary''))"
  by (simp add: script_defs table_without_salary_def)

subsection \<open>The insights panel\<close>

text \<open>
  C4. The claim is that each field of the insights panel shows a placeholder when its source
  column is absent. Lines 134 and 135 guard \<open>Card Type\<close> and \<open>AgeGroup\<close> that way, but
  lines 131 and 132 read \<open>EstimatedSalary\<close> unguarded: on a table without that column the
  panel's heading is emitted, then \<open>KeyError\<close> is raised and no panel is shown.
\<close>

theorem insights_raise_without_salary:
  "insights ''France'' table_cards_only =
     ([St_markdown ''## Key Findings & Insights''],
      Some (Fault (KeyError ''EstimatedSalary''))) \<and>
   snd (render ''France'' table_cards_only) = Some (Fault (KeyError ''EstimatedSalary'')) \<and>
   filter is_insight_box (fst (render ''France'' table_cards_only)) = []"
  by (simp add: script_defs table_cards_only_def keep_def value_counts_def tally_def
      rename_counts_def)

lemma keep_none: "True \<notin> set flags \<Longrightarrow> keep flags xs = []"
  unfolding keep_def
  by (induction flags arbitrary: xs) (auto simp: zip_Cons1 split: list.splits)

lemma keep_col_none: "True \<notin> set flags \<Longrightarrow> cells (keep_col flags c) = []"
  by (cases c) (simp_all add: keep_none)

lemma value_counts_empty: "cells c = [] \<Longrightarrow> value_counts c = []"
  by (simp add: value_counts_def tally_def)

lemma map_of_map_snd: "map_of (map (\<lambda>(n, c). (n, f c)) xs) k = map_option f (map_of xs k)"
  by (induction xs) auto

lemma has_column_select_rows: "has_column (select_rows df flags) name = has_column df name"
  by (simp add: has_column_def columns_def select_rows_def comp_def case_prod_unfold)

lemma has_column_map_of: "has_column df name \<longleftrightarrow> map_of (cols df) name \<noteq> None"
  by (simp add: has_column_def columns_def map_of_eq_None_iff)

lemma getitem_select_rows:
  "getitem (select_rows df flags) name =
     and_then (getitem df name) (\<lambda>c. Inr (keep_col flags c))"
  by (simp add: getitem_def select_rows_def map_of_map_snd and_then_def split: option.splits)

lemma most_common_empty:
  assumes "True \<notin> set flags" and "has_column df name"
  shows "most_common (select_rows df flags) name = Inl ValueError"
proof -
  from assms(2) obtain c where c: "map_of (cols df) name = Some c"
    by (auto simp: has_column_map_of)
  then have "getitem (select_rows df flags) name = Inr (keep_col flags c)"
    unfolding getitem_select_rows by (simp add: getitem_def and_then_def)
  moreover have "value_counts (keep_col flags c) = []"
    using assms(1) by (simp add: value_counts_empty keep_col_none)
  ultimately show ?thesis
    using assms(2) by (simp add: most_common_def has_column_select_rows and_then_def)
qed

lemma most_common_cases:
  "True \<notin> set flags \<Longrightarrow>
   most_common (select_rows df flags) name = Inl ValueError \<or>
   most_common (select_rows df flags) name = Inr (Str ''N/A'')"
  using most_common_empty [of flags df name]
  by (cases "has_column df name") (auto simp: most_common_def has_column_select_rows)

lemma render_not_stopped:
  "has_column df ''Exited'' \<Longrightarrow> snd (render country df) \<noteq> Some Stopped"
  unfolding render_def
  apply (rule run_all_not_stopped)
  apply (simp add: section_defs plotly_chart_not_stopped run_all_not_stopped)
  apply (auto simp: or_fault_def and_then_def emit_def split: sum.splits)
  done

lemma sections_no_box:
  "filter is_insight_box (fst (insights country df)) = [] \<Longrightarrow>
   filter is_insight_box (fst (render country df)) = []"
  unfolding render_def
  apply (rule run_all_filter_empty)
  apply (simp add: section_defs [unfolded insights_def] plotly_chart_no_box run_all_filter_empty)
  apply (auto simp: or_fault_def and_then_def emit_def split: sum.splits)
  done

lemma select_rows_none: "True \<notin> set flags \<Longrightarrow> len (select_rows df flags) = 0"
  by (auto simp: len_def select_rows_def filter_empty_conv dest: in_set_takeD)

text \<open>
  C10. The guard of lines 134 and 135 tests that the column exists, not that a customer
  churned. When the table has the \<open>Card Type\<close> (or \<open>AgeGroup\<close>) column and no row with
  \<open>Exited = 1\<close>, the churned subset is empty, its value counts are empty and \<open>idxmax\<close>
  raises \<open>ValueError\<close>: the insights section emits its heading and faults, the run ends in
  a fault and no insights panel is shown.
\<close>

theorem empty_churned_faults:
  assumes "getitem df ''Exited'' = Inr ex"
    and "True \<notin> set (eq_num ex 1)"
    and "name = ''Card Type'' \<or> name = ''AgeGroup''"
    and "has_column df name"
  shows "(\<exists>ch. churned df = Inr ch \<and> len ch = 0 \<and> most_common ch name = Inl ValueError) \<and>
         (\<exists>e. insights country df =
            ([St_markdown ''## Key Findings & Insights''], Some (Fault e))) \<and>
         (\<exists>e. snd (render country df) = Some (Fault e)) \<and>
         filter is_insight_box (fst (render country df)) = []"
proof -
  have ch: "churned df = Inr (select_rows df (eq_num ex 1))"
    using assms(1) by (simp add: churned_def and_then_def)
  have mc: "most_common (select_rows df (eq_num ex 1)) name = Inl ValueError"
    using assms(2,4) by (rule most_common_empty)
  have first: "\<exists>ch. churned df = Inr ch \<and> len ch = 0 \<and> most_common ch name = Inl ValueError"
    using ch mc select_rows_none [OF assms(2)] by simp
  have "\<exists>e. insight_values country df = Inl e"
    using assms(3) mc most_common_cases [OF assms(2), of df "''Card Type''"] ch
    by (auto simp: insight_values_def and_then_def split: sum.splits)
  then obtain e where ins:
    "insights country df = ([St_markdown ''## Key Findings & Insights''], Some (Fault e))"
    by (auto simp: insights_def emit_def or_fault_def and_then_def)
  have exited: "has_column df ''Exited''"
    using assms(1) by (simp add: has_column_map_of getitem_def split: option.splits)
  have "insights country df \<in> set
     [exited_check df, overview country df, metrics df,
        plot_fig1 df, plot_fig2 df, plot_fig3 df, plot_fig4 df, plot_fig5 df, plot_fig6 df,
        plot_fig7 df, plot_fig8 df, plot_fig9 df,
        insights country df, connect_and_faq]"
    by simp
  then have "snd (render country df) \<noteq> None"
    unfolding render_def by (rule run_all_stops) (simp add: ins)
  moreover have "snd (render country df) \<noteq> Some Stopped"
    using exited by (rule render_not_stopped)
  ultimately have third: "\<exists>e. snd (render country df) = Some (Fault e)"
    by (cases "snd (render country df)") (auto intro: stop.exhaust)
  have fourth: "filter is_insight_box (fst (render country df)) = []"
    by (rule sections_no_box) (simp add: ins)
  from first ins third fourth show ?thesis
    by blast
qed

theorem empty_churned_faults_witness:
  "(\<exists>ch. churned table_none_churned = Inr ch \<and> len ch = 0 \<and>
       most_common ch ''Card Type'' = Inl ValueError) \<and>
   (\<exists>e. insights ''France'' table_none_churned =
       ([St_markdown ''## Key Findings & Insights''], Some (Fault e))) \<and>
   (\<exists>e. snd (render ''France'' table_none_churned) = Some (Fault e)) \<and>
   filter is_insight_box (fst (render ''France'' table_none_churned)) = []"
proof (rule empty_churned_faults)
  show "getitem table_none_churned ''Exited'' = Inr (NumCol [0, 0])"
    by (simp add: getitem_def table_none_churned_def)
  show "True \<notin> set (eq_num (NumCol [0, 0]) 1)"
    by simp
  show "''Card Type'' = ''Card Type'' \<or> ''Card Type'' = ''AgeGroup''"
    by simp
  show "has_column table_none_churned ''Card Type''"
    by (simp add: has_column_def columns_def table_none_churned_def)
qed

subsection \<open>The tenure section\<close>

lemma map_of_filter_label:
  "map_of (filter (\<lambda>(n, c). n \<noteq> t) xs) k = (if k = t then None else map_of xs k)"
  by (induction xs) auto

lemma drop_one:
  assumes "drop df [t] = Inr df'"
  shows "nrows df' = nrows df"
    and "map_of (cols df') k = (if k = t then None else map_of (cols df) k)"
  using assms by (auto simp: drop_def map_of_filter_label split: list.splits if_splits)

lemma agree_getitem: "agree_except t df df' \<Longrightarrow> k \<noteq> t \<Longrightarrow> getitem df' k = getitem df k"
  by (simp add: agree_except_def getitem_def)

lemma agree_px_col: "agree_except t df df' \<Longrightarrow> k \<noteq> t \<Longrightarrow> px_col df' k = px_col df k"
  by (simp add: agree_except_def px_col_def)

lemma agree_has_column: "agree_except t df df' \<Longrightarrow> k \<noteq> t \<Longrightarrow> has_column df' k = has_column df k"
  by (simp add: agree_except_def has_column_map_of)

lemma agree_len: "agree_except t df df' \<Longrightarrow> len df' = len df"
  by (simp add: agree_except_def len_def)

lemma agree_select_rows:
  "agree_except t df df' \<Longrightarrow> agree_except t (select_rows df flags) (select_rows df' flags)"
  by (simp add: agree_except_def select_rows_def map_of_map_snd)

lemma agree_churn_rate: "agree_except ''Tenure'' df df' \<Longrightarrow> churn_rate df' = churn_rate df"
  by (simp add: churn_rate_def agree_getitem)

lemma agree_metrics: "agree_except ''Tenure'' df df' \<Longrightarrow> metrics df' = metrics df"
  by (simp add: metrics_def agree_getitem agree_len agree_churn_rate)

lemma agree_px_histogram:
  assumes "agree_except t df df'" and "a \<noteq> t" and "b \<noteq> t"
  shows "px_histogram df' a b ti = px_histogram df a b ti"
  using assms by (simp add: px_histogram_def agree_px_col)

lemma agree_px_box:
  assumes "agree_except t df df'" and "a \<noteq> t" and "b \<noteq> t" and "c \<noteq> t"
  shows "px_box df' a b c ti = px_box df a b c ti"
  using assms by (simp add: px_box_def agree_px_col)

lemma agree_charts:
  assumes "agree_except ''Tenure'' df df'"
  shows "exited_check df' = exited_check df"
    and "plot_fig1 df' = plot_fig1 df" and "plot_fig2 df' = plot_fig2 df"
    and "plot_fig3 df' = plot_fig3 df" and "plot_fig4 df' = plot_fig4 df"
    and "plot_fig5 df' = plot_fig5 df" and "plot_fig6 df' = plot_fig6 df"
    and "plot_fig7 df' = plot_fig7 df" and "plot_fig9 df' = plot_fig9 df"
  using assms
  by (simp_all add: exited_check_def plot_fig1_def plot_fig2_def plot_fig3_def plot_fig4_def
      plot_fig5_def plot_fig6_def plot_fig7_def plot_fig9_def agree_px_histogram agree_px_box
      agree_has_column grouped_df_def groupby_mean_def churn_counts_def agree_getitem)

lemma agree_avg_salary:
  "agree_except ''Tenure'' df df' \<Longrightarrow> avg_salary df' = avg_salary df"
  by (simp add: avg_salary_def agree_getitem)

lemma agree_most_common:
  "agree_except t df df' \<Longrightarrow> k \<noteq> t \<Longrightarrow> most_common df' k = most_common df k"
  by (simp add: most_common_def agree_getitem agree_has_column)

lemma and_then_Inr: "and_then (Inr v) f = f v"
  by (simp add: and_then_def)

lemma and_then_Inl: "and_then (Inl e) f = Inl e"
  by (simp add: and_then_def)

lemma agree_insights:
  assumes "agree_except ''Tenure'' df df'"
  shows "insights country df' = insights country df"
proof -
  have sel: "\<And>flags. agree_except ''Tenure'' (select_rows df flags) (select_rows df' flags)"
    using assms by (rule agree_select_rows)
  have "insight_values country df' = insight_values country df"
  proof (cases "getitem df ''Exited''")
    case (Inl e)
    then show ?thesis
      using assms
      by (simp add: insight_values_def churned_def retained_def agree_getitem and_then_Inl)
  next
    case (Inr ex)
    then show ?thesis
      using assms
      by (simp add: insight_values_def churned_def retained_def agree_getitem agree_churn_rate
          and_then_Inr agree_avg_salary [OF sel] agree_most_common [OF sel])
  qed
  then show ?thesis
    by (simp add: insights_def)
qed

lemma run_all_skip: "run_all (rs @ skip # rest) = run_all (rs @ rest)"
  by (induction rs rule: run_all.induct) (simp_all add: skip_def)

text \<open>
  C8. Let \<open>df'\<close> be a table \<open>df\<close> with its \<open>Tenure\<close> column removed. On \<open>df'\<close> the tenure
  section emits nothing, and the run is the run of the same sections on \<open>df\<close>, tenure section
  left out: the check, the metrics, every other chart, the insights panel and the static
  sections emit what they emit for \<open>df\<close>, and a fault falls where it falls for \<open>df\<close>. The
  table preview shows the first rows of the table it is given, that is the preview for
  \<open>df\<close> without its \<open>Tenure\<close> column.
\<close>

theorem tenure_absent_frame:
  assumes "drop df [''Tenure''] = Inr df'"
  shows "plot_fig8 df' = skip \<and>
    drop (head df) [''Tenure''] = Inr (head df') \<and>
    render country df' =
      run_all
       [exited_check df, overview country df', metrics df,
        plot_fig1 df, plot_fig2 df, plot_fig3 df, plot_fig4 df, plot_fig5 df, plot_fig6 df,
        plot_fig7 df, plot_fig9 df,
        insights country df, connect_and_faq]"
proof -
  have agree: "agree_except ''Tenure'' df df'"
    using drop_one [OF assms] by (simp add: agree_except_def)
  have "\<not> has_column df' ''Tenure''"
    using drop_one(2) [OF assms, of "''Tenure''"] by (simp add: has_column_map_of)
  then have fig8: "plot_fig8 df' = skip"
    by (simp add: plot_fig8_def)
  have hd: "drop (head df) [''Tenure''] = Inr (head df')"
    using assms
    by (auto simp: drop_def head_def columns_def filter_map comp_def case_prod_unfold
        image_iff split: list.splits if_splits)
  have "render country df' =
      run_all
       [exited_check df, overview country df', metrics df,
        plot_fig1 df, plot_fig2 df, plot_fig3 df, plot_fig4 df, plot_fig5 df, plot_fig6 df,
        plot_fig7 df, skip, plot_fig9 df,
        insights country df, connect_and_faq]"
    by (simp only: render_def fig8 agree_charts [OF agree] agree_metrics [OF agree]
        agree_insights [OF agree])
  also have "\<dots> = run_all
       [exited_check df, overview country df', metrics df,
        plot_fig1 df, plot_fig2 df, plot_fig3 df, plot_fig4 df, plot_fig5 df, plot_fig6 df,
        plot_fig7 df, plot_fig9 df,
        insights country df, connect_and_faq]"
    using run_all_skip [of "[exited_check df, overview country df', metrics df,
        plot_fig1 df, plot_fig2 df, plot_fig3 df, plot_fig4 df, plot_fig5 df, plot_fig6 df,
        plot_fig7 df]" "[plot_fig9 df, insights country df, connect_and_faq]"]
    by simp
  finally show ?thesis
    using fig8 hd by simp
qed

theorem tenure_absent_frame_witness:
  "plot_fig8 table_tenure_removed = skip \<and>
   drop (head table_with_tenure) [''Tenure''] = Inr (head table_tenure_removed) \<and>
   render ''France'' table_tenure_removed =
     run_all
       [exited_check table_with_tenure, overview ''France'' table_tenure_removed,
        metrics table_with_tenure, plot_fig1 table_with_tenure, plot_fig2 table_with_tenure,
        plot_fig3 table_with_tenure, plot_fig4 table_with_tenure, plot_fig5 table_with_tenure,
        plot_fig6 table_with_tenure, plot_fig7 table_with_tenure, plot_fig9 table_with_tenure,
        insights ''France'' table_with_tenure, connect_and_faq]"
proof (rule tenure_absent_frame)
  show "drop table_with_tenure [''Tenure''] = Inr table_tenure_removed"
    by (simp add: drop_def columns_def table_with_tenure_def table_tenure_removed_def)
qed

subsection \<open>Value counts and the pie chart\<close>

lemma count_value_map_of:
  "map_of (count_value v acc) =
     (map_of acc)(v \<mapsto> (case map_of acc v of None \<Rightarrow> 1 | Some n \<Rightarrow> Suc n))"
  by (induction acc) (auto simp: fun_eq_iff)

lemma count_value_keys_old:
  "v \<in> fst ` set acc \<Longrightarrow> map fst (count_value v acc) = map fst acc"
  by (induction acc) force+

lemma count_value_keys_new:
  "v \<notin> fst ` set acc \<Longrightarrow> map fst (count_value v acc) = map fst acc @ [v]"
  by (induction acc) auto

lemma count_value_distinct:
  "distinct (map fst acc) \<Longrightarrow> distinct (map fst (count_value v acc))"
  by (cases "v \<in> fst ` set acc") (simp_all add: count_value_keys_old count_value_keys_new)

lemma count_value_sum:
  "sum_list (map snd (count_value v acc)) = Suc (sum_list (map snd acc))"
  by (induction acc) auto

lemma foldl_count_value:
  "distinct (map fst acc) \<Longrightarrow>
   distinct (map fst (foldl (\<lambda>acc v. count_value v acc) acc vs)) \<and>
   sum_list (map snd (foldl (\<lambda>acc v. count_value v acc) acc vs)) =
     sum_list (map snd acc) + length vs \<and>
   map_of (foldl (\<lambda>acc v. count_value v acc) acc vs) w =
     (case map_of acc w of
        None \<Rightarrow> if w \<in> set vs then Some (count_list vs w) else None
      | Some n \<Rightarrow> Some (n + count_list vs w))"
proof (induction vs arbitrary: acc)
  case Nil
  then show ?case by (simp split: option.splits)
next
  case (Cons v vs)
  have d: "distinct (map fst (count_value v acc))"
    using Cons.prems by (rule count_value_distinct)
  show ?case
    using Cons.IH [OF d]
    by (auto simp: count_value_sum count_value_map_of split: option.splits)
qed

lemma tally_distinct: "distinct (map fst (tally vs))"
  using foldl_count_value [of "[]" vs] by (simp add: tally_def)

lemma tally_sum: "sum_list (map snd (tally vs)) = length vs"
  using foldl_count_value [of "[]" vs] by (simp add: tally_def)

lemma tally_map_of:
  "map_of (tally vs) w = (if w \<in> set vs then Some (count_list vs w) else None)"
  using foldl_count_value [of "[]" vs w] by (simp add: tally_def)

lemma tally_set: "set (tally vs) = (\<lambda>v. (v, count_list vs v)) ` set vs"
proof -
  have "(v, n) \<in> set (tally vs) \<longleftrightarrow> v \<in> set vs \<and> n = count_list vs v" for v n
    using map_of_eq_Some_iff [OF tally_distinct, of vs v n]
    by (auto simp: tally_map_of split: if_splits)
  then show ?thesis
    by (auto simp: image_iff)
qed

lemma sum_list_insort_key:
  fixes g :: "'a \<Rightarrow> nat"
  shows "sum_list (map g (insort_key f x xs)) = g x + sum_list (map g xs)"
  by (induction xs) auto

lemma sum_list_sort_key:
  fixes g :: "'a \<Rightarrow> nat"
  shows "sum_list (map g (sort_key f xs)) = sum_list (map g xs)"
  by (induction xs) (auto simp: sum_list_insort_key)

lemma distinct_map_sort_key:
  "distinct (map g xs) \<Longrightarrow> distinct (map g (sort_key f xs))"
  by (simp add: distinct_map)

lemma value_counts_set:
  "set (value_counts c) = (\<lambda>v. (v, count_list (cells c) v)) ` set (cells c)"
  by (simp add: value_counts_def tally_set)

lemma value_counts_distinct: "distinct (map fst (value_counts c))"
  by (simp add: value_counts_def distinct_map_sort_key tally_distinct)

lemma value_counts_sum: "sum_list (map snd (value_counts c)) = length (cells c)"
  by (simp add: value_counts_def sum_list_sort_key tally_sum)

lemma getitem_length:
  "wf_dataframe df \<Longrightarrow> getitem df name = Inr c \<Longrightarrow> length (cells c) = nrows df"
  by (auto simp: wf_dataframe_def getitem_def list_all_iff split: option.splits
      dest!: map_of_SomeD)

lemma run_all_append:
  "snd (run_all rs) = None \<Longrightarrow>
   run_all (rs @ rest) = (fst (run_all rs) @ fst (run_all rest), snd (run_all rest))"
  by (induction rs rule: run_all.induct) auto

text \<open>
  The pie section on its own. For a well-formed table whose \<open>Exited\<close> column holds only 0
  and 1, the section has no gate and cannot raise: it emits its heading and the pie, and
  every run whose earlier statements ran to their end shows the pie; the slices are exactly
  the value counts of \<open>Exited\<close>, one slice per value that occurs, with 0 named \<open>Retained\<close>
  and 1 named \<open>Churned\<close>; the slice values add up to the number of rows.
\<close>

lemma churn_pie:
  assumes "wf_dataframe df"
    and "getitem df ''Exited'' = Inr ex"
    and "set (cells ex) \<subseteq> {Num 0, Num 1}"
  shows "\<exists>counts.
     churn_counts df = Inr counts \<and>
     plot_fig7 df =
       emit [St_markdown ''### Churn Breakdown'',
             St_plotly_chart (Pie ''Churn vs Retention'' (map snd counts) (map fst counts))] \<and>
     (snd (run_all (before_fig7 country df)) = None \<longrightarrow>
        St_plotly_chart (Pie ''Churn vs Retention'' (map snd counts) (map fst counts))
          \<in> set (fst (render country df))) \<and>
     set counts = (\<lambda>v. (rename_label v, count_list (cells ex) v)) ` set (cells ex) \<and>
     distinct (map fst counts) \<and>
     set (map fst counts) \<subseteq> {Str ''Retained'', Str ''Churned''} \<and>
     sum_list (map snd counts) = len df"
proof -
  let ?counts = "rename_counts (value_counts ex)"
  let ?pie = "St_plotly_chart (Pie ''Churn vs Retention'' (map snd ?counts) (map fst ?counts))"
  have cc: "churn_counts df = Inr ?counts"
    using assms(2) by (simp add: churn_counts_def and_then_def)
  have fig: "plot_fig7 df = emit [St_markdown ''### Churn Breakdown'', ?pie]"
    by (simp add: plot_fig7_def cc and_then_def plotly_chart_def px_pie_def emit_def)
  have reach: "?pie \<in> set (fst (render country df))"
    if "snd (run_all (before_fig7 country df)) = None"
  proof -
    have "render country df =
      run_all (before_fig7 country df @
        [plot_fig7 df, plot_fig8 df, plot_fig9 df, insights country df, connect_and_faq])"
      by (simp add: render_def before_fig7_def)
    then show ?thesis
      using that by (simp add: run_all_append fig emit_def)
  qed
  have st: "set ?counts = (\<lambda>v. (rename_label v, count_list (cells ex) v)) ` set (cells ex)"
    by (auto simp: rename_counts_def value_counts_set image_iff)
  have keys: "map fst ?counts = map rename_label (map fst (value_counts ex))"
    by (simp add: rename_counts_def comp_def case_prod_unfold)
  have sub: "set (map fst (value_counts ex)) \<subseteq> {Num 0, Num 1}"
    using assms(3) by (auto simp: value_counts_set image_iff)
  have "inj_on rename_label {Num 0, Num 1}"
    by (simp add: inj_on_def)
  then have "inj_on rename_label (set (map fst (value_counts ex)))"
    using sub by (rule inj_on_subset)
  then have dist: "distinct (map fst ?counts)"
    using value_counts_distinct [of ex] unfolding keys by (metis distinct_map)
  have names: "set (map fst ?counts) \<subseteq> {Str ''Retained'', Str ''Churned''}"
    unfolding keys using sub by auto
  have "map snd ?counts = map snd (value_counts ex)"
    by (simp add: rename_counts_def comp_def case_prod_unfold)
  then have total: "sum_list (map snd ?counts) = len df"
    using getitem_length [OF assms(1,2)] by (simp add: value_counts_sum len_def)
  from cc fig reach st dist names total show ?thesis
    by (intro exI [of _ ?counts]) simp
qed

lemma table01_counts:
  "churn_counts table01 = Inr [(Str ''Retained'', 2), (Str ''Churned'', 1)]"
  by (simp add: churn_counts_def getitem_def and_then_def table01_def value_counts_def
      tally_def rename_counts_def)

lemma table01_before: "snd (run_all (before_fig7 ''France'' table01)) = None"
  by (simp add: before_fig7_def script_defs table01_def len_def binary64_def)

lemma churn_pie_on_table01:
  "churn_counts table01 = Inr [(Str ''Retained'', 2), (Str ''Churned'', 1)] \<and>
   St_plotly_chart (Pie ''Churn vs Retention'' [2, 1] [Str ''Retained'', Str ''Churned''])
     \<in> set (fst (render ''France'' table01)) \<and>
   sum_list [2, 1] = len table01"
proof -
  have "wf_dataframe table01"
    by (simp add: wf_dataframe_def columns_def table01_def)
  moreover have "getitem table01 ''Exited'' = Inr (NumCol [0, 1, 0])"
    by (simp add: getitem_def table01_def)
  moreover have "set (cells (NumCol [0, 1, 0])) \<subseteq> {Num 0, Num 1}"
    by simp
  ultimately show ?thesis
    using churn_pie [of table01 "NumCol [0, 1, 0]" "''France''"]
    by (auto simp: table01_counts table01_before)
qed

text \<open>
  C5. The claim is that the pie chart is rendered for every table whose \<open>Exited\<close> column
  holds only 0 and 1. The pie section itself has no gate, but it comes after the grouped bar
  section, whose gate at line 87 does not test \<open>EstimatedSalary\<close>: on a well-formed table
  with the flag 1, an age group and a card type and no salaries, line 89 raises \<open>KeyError\<close>,
  the run ends there and the page holds no pie.
\<close>

theorem pie_missing_without_salary:
  "wf_dataframe table_without_salary \<and>
   getitem table_without_salary ''Exited'' = Inr (NumCol [1]) \<and>
   snd (run_all (before_fig7 ''France'' table_without_salary)) =
     Some (Fault (KeyError ''EstimatedSalary'')) \<and>
   snd (render ''France'' table_without_salary) = Some (Fault (KeyError ''EstimatedSalary'')) \<and>
   filter is_pie_chart (fst (render ''France'' table_without_salary)) = []"
  by (simp add: wf_dataframe_def before_fig7_def script_defs table_without_salary_def)

subsection \<open>The pre-aggregation of the grouped bar chart\<close>





















subsection \<open>Rounding to binary64\<close>

lemma bits_upper: "n < 2 ^ bits n"
proof (induction n rule: bits.induct)
  case (1 n)
  show ?case
  proof (cases "n = 0")
    case True
    then show ?thesis by (simp add: bits.simps)
  next
    case False
    then have "n div 2 < 2 ^ bits (n div 2)"
      using "1" by simp
    then have "n < 2 * 2 ^ bits (n div 2)"
      by linarith
    then show ?thesis
      using False by (subst bits.simps) simp
  qed
qed

lemma bits_lower: "0 < n \<Longrightarrow> 2 ^ (bits n - 1) \<le> n"
proof (induction n rule: bits.induct)
  case (1 n)
  show ?case
  proof (cases "n div 2 = 0")
    case True
    then have "bits n = 1"
      using "1.prems" by (simp add: bits.simps [of n] bits.simps [of 0])
    then show ?thesis
      using "1.prems" by simp
  next
    case False
    then have ih: "2 ^ (bits (n div 2) - 1) \<le> n div 2"
      using "1" by simp
    have pos: "0 < bits (n div 2)"
      using False by (subst bits.simps) simp
    have "bits n = Suc (bits (n div 2))"
      using "1.prems" by (subst bits.simps) simp
    then have "2 ^ (bits n - 1) = (2::nat) * 2 ^ (bits (n div 2) - 1)"
      using pos by (cases "bits (n div 2)") simp_all
    also have "\<dots> \<le> 2 * (n div 2)"
      using ih by simp
    also have "\<dots> \<le> n"
      by simp
    finally show ?thesis .
  qed
qed

lemma pow2_pos: "0 < pow2 e"
  by (simp add: pow2_def)

lemma pow2_powi: "pow2 e = 2 powi e"
  by (simp add: pow2_def power_int_def power_one_over inverse_eq_divide)

lemma pow2_add: "pow2 (a + b) = pow2 a * pow2 b"
  by (simp add: pow2_powi power_int_add)

lemma pow2_nat: "pow2 (int n) = 2 ^ n"
  by (simp add: pow2_def)

lemma pow2_neg_nat: "pow2 (- int n) = 1 / 2 ^ n"
  by (auto simp: pow2_def)

lemma ilog2_lower:
  assumes "0 < x"
  shows "pow2 (ilog2 x) \<le> x"
proof (cases "1 \<le> x")
  case True
  let ?n = "nat \<lfloor>x\<rfloor>"
  have n: "0 < ?n"
    using True by simp
  have "ilog2 x = int (bits ?n - 1)"
    using True bits_lower [OF n] bits_upper [of ?n] n
    by (cases "bits ?n") (simp_all add: ilog2_def)
  then have "pow2 (ilog2 x) = 2 ^ (bits ?n - 1)"
    by (simp add: pow2_nat)
  also have "\<dots> = of_nat (2 ^ (bits ?n - 1))"
    by simp
  also have "\<dots> \<le> of_nat ?n"
    using bits_lower [OF n] by (simp only: of_nat_le_iff)
  also have "\<dots> \<le> x"
    using True by (simp add: of_nat_nat)
  finally show ?thesis .
next
  case False
  let ?n = "nat (\<lceil>1 / x\<rceil> - 1)"
  have "ilog2 x = - int (bits ?n)"
    using False by (simp add: ilog2_def)
  then have p: "pow2 (ilog2 x) = 1 / 2 ^ bits ?n"
    by (simp add: pow2_neg_nat)
  have "1 / x \<le> of_int \<lceil>1 / x\<rceil>"
    by (rule le_of_int_ceiling)
  moreover have "\<lceil>1 / x\<rceil> - 1 \<le> int ?n"
    by linarith
  moreover have "int ?n < 2 ^ bits ?n"
    using bits_upper [of ?n] by (metis of_nat_less_iff of_nat_numeral of_nat_power)
  ultimately have "\<lceil>1 / x\<rceil> \<le> 2 ^ bits ?n"
    by linarith
  then have "(of_int \<lceil>1 / x\<rceil> :: rat) \<le> 2 ^ bits ?n"
    by (metis of_int_le_iff of_int_numeral of_int_power)
  with \<open>1 / x \<le> of_int \<lceil>1 / x\<rceil>\<close> have "1 / x \<le> 2 ^ bits ?n"
    by (rule order_trans)
  then have "1 \<le> 2 ^ bits ?n * x"
    using assms by (simp add: field_simps)
  then have "1 / 2 ^ bits ?n \<le> x"
    by (simp add: field_simps)
  then show ?thesis
    using p by simp
qed

lemma round_half_even_error: "\<bar>of_int (round_half_even s) - s\<bar> \<le> 1 / 2"
proof -
  have "of_int \<lfloor>s\<rfloor> \<le> s" "s < of_int \<lfloor>s\<rfloor> + 1"
    by linarith+
  then show ?thesis
    by (auto simp: round_half_even_def Let_def)
qed

lemma round_half_even_nearest:
  assumes "of_int j - 1 / 2 < s" and "s < of_int j + 1 / 2"
  shows "round_half_even s = j"
proof -
  have e: "\<bar>of_int (round_half_even s) - s\<bar> \<le> 1 / 2"
    by (rule round_half_even_error)
  have "\<bar>(of_int (round_half_even s) :: rat) - of_int j\<bar> < 1"
    using e assms by linarith
  then have "\<bar>(of_int (round_half_even s - j) :: rat)\<bar> < 1"
    by simp
  then have "\<bar>round_half_even s - j\<bar> < 1"
    by (metis of_int_abs of_int_less_1_iff)
  then show ?thesis
    by linarith
qed

lemma binary64_error:
  assumes "0 < x"
  shows "\<bar>binary64 x - x\<bar> \<le> x / 2 ^ 53"
proof -
  let ?e = "ilog2 x - 52"
  let ?s = "x / pow2 ?e"
  let ?m = "round_half_even ?s"
  have b: "binary64 x = of_int ?m * pow2 ?e"
    using assms by (simp add: binary64_def Let_def)
  have x: "x = ?s * pow2 ?e"
    using pow2_pos [of ?e] by simp
  have "binary64 x - x = (of_int ?m - ?s) * pow2 ?e"
    unfolding b by (subst (2) x) (simp only: left_diff_distrib)
  then have "\<bar>binary64 x - x\<bar> = \<bar>of_int ?m - ?s\<bar> * pow2 ?e"
    using pow2_pos [of ?e] by (simp add: abs_mult)
  also have "\<dots> \<le> 1 / 2 * pow2 ?e"
    using round_half_even_error [of ?s] pow2_pos [of ?e] by (simp add: mult_right_mono)
  also have "pow2 ?e = pow2 (ilog2 x) * pow2 (- 52)"
    using pow2_add [of "ilog2 x" "- 52"] by simp
  also have "1 / 2 * (pow2 (ilog2 x) * pow2 (- 52)) = pow2 (ilog2 x) / 2 ^ 53"
    by (simp add: pow2_def)
  also have "\<dots> \<le> x / 2 ^ 53"
    using ilog2_lower [OF assms] by (simp add: divide_right_mono)
  finally show ?thesis .
qed

lemma binary64_zero: "binary64 0 = 0"
  by (simp add: binary64_def)

lemma rate_error:
  assumes "0 \<le> p" and "p \<le> 1"
  shows "\<bar>binary64 (binary64 p * 100) - 100 * p\<bar> \<le> 300 / 2 ^ 53 \<and>
         0 \<le> binary64 (binary64 p * 100)"
proof (cases "p = 0")
  case True
  then show ?thesis by (simp add: binary64_zero)
next
  case False
  then have p: "0 < p"
    using assms(1) by simp
  let ?y = "binary64 p"
  let ?z = "?y * 100"
  have e1: "\<bar>?y - p\<bar> \<le> p / 2 ^ 53"
    using p by (rule binary64_error)
  have small: "p / 2 ^ 53 < p"
    using p by (simp add: field_simps)
  have y: "0 < ?y" "?y \<le> 2 * p"
    using e1 small by linarith+
  have z: "0 < ?z"
    using y(1) by simp
  have e2: "\<bar>binary64 ?z - ?z\<bar> \<le> ?z / 2 ^ 53"
    using z by (rule binary64_error)
  have "?z / 2 ^ 53 \<le> 200 * p / 2 ^ 53"
    using y(2) by (simp add: divide_right_mono)
  then have e2': "\<bar>binary64 ?z - ?z\<bar> \<le> 200 * p / 2 ^ 53"
    using e2 by linarith
  have "?z / 2 ^ 53 < ?z"
    using z by (simp add: field_simps)
  then have nonneg: "0 \<le> binary64 ?z"
    using e2 by linarith
  have "?z - 100 * p = 100 * (?y - p)"
    by simp
  then have "\<bar>?z - 100 * p\<bar> = 100 * \<bar>?y - p\<bar>"
    by (simp only: abs_mult)
  then have e1': "\<bar>?z - 100 * p\<bar> \<le> 100 * (p / 2 ^ 53)"
    using e1 by linarith
  have "\<bar>binary64 ?z - 100 * p\<bar> \<le> 200 * p / 2 ^ 53 + 100 * (p / 2 ^ 53)"
    using e1' e2' by linarith
  also have "\<dots> = 300 * p / 2 ^ 53"
    by simp
  finally have "\<bar>binary64 ?z - 100 * p\<bar> \<le> 300 * p / 2 ^ 53" .
  also have "\<dots> \<le> 300 / 2 ^ 53"
    using assms(2) by (simp add: divide_right_mono)
  finally show ?thesis
    using nonneg by simp
qed

lemma halfway_gap:
  fixes k n :: nat and i :: int
  assumes "0 < n" and "10000 * of_nat k / of_nat n \<noteq> (of_int i + 1 / 2 :: rat)"
  shows "1 / (2 * of_nat n) \<le> \<bar>10000 * of_nat k / of_nat n - (of_int i + 1 / 2 :: rat)\<bar>"
proof -
  let ?N = "20000 * int k - (2 * i + 1) * int n"
  have eq: "(of_int ?N :: rat) =
      2 * of_nat n * (10000 * of_nat k / of_nat n - (of_int i + 1 / 2))"
    using assms(1) by (simp add: field_simps)
  have "?N \<noteq> 0"
  proof
    assume "?N = 0"
    then have "(of_int ?N :: rat) = 0"
      by simp
    then show False
      using assms unfolding eq by simp
  qed
  then have "1 \<le> \<bar>?N\<bar>"
    by linarith
  then have "(1 :: rat) \<le> \<bar>of_int ?N\<bar>"
    by (metis of_int_1_le_iff of_int_abs)
  then have "1 \<le> 2 * of_nat n * \<bar>10000 * of_nat k / of_nat n - (of_int i + 1 / 2 :: rat)\<bar>"
    unfolding eq by (simp add: abs_mult)
  then show ?thesis
    using assms(1) by (simp add: field_simps)
qed

lemma not_halfway: "\<not> halfway v \<Longrightarrow> v \<noteq> of_int i + 1 / 2"
proof
  assume "\<not> halfway v" and v: "v = of_int i + 1 / 2"
  have "\<lfloor>v\<rfloor> = i"
    unfolding v by (simp add: floor_unique)
  then have "halfway v"
    by (simp add: halfway_def v)
  with \<open>\<not> halfway v\<close> show False ..
qed

lemma display_digits:
  fixes k n :: nat
  assumes "0 < n" and "k \<le> n" and "n < 2 ^ 32"
  shows "\<bar>of_int (round_half_even (binary64 (binary64 (of_nat k / of_nat n) * 100) * 100))
           - (10000 * of_nat k / of_nat n :: rat)\<bar> \<le> 1 / 2 \<and>
         (\<not> halfway (10000 * of_nat k / of_nat n) \<longrightarrow>
            round_half_even (binary64 (binary64 (of_nat k / of_nat n) * 100) * 100) =
            round_half_even (10000 * of_nat k / of_nat n))"
proof -
  let ?p = "of_nat k / of_nat n :: rat"
  let ?X = "10000 * of_nat k / of_nat n :: rat"
  let ?Y = "binary64 (binary64 ?p * 100) * 100"
  have p: "0 \<le> ?p" "?p \<le> 1"
    using assms(1,2) by simp_all
  have "\<bar>binary64 (binary64 ?p * 100) - 100 * ?p\<bar> \<le> 300 / 2 ^ 53"
    using rate_error [OF p] by simp
  moreover have "?Y - ?X = 100 * (binary64 (binary64 ?p * 100) - 100 * ?p)"
    by simp
  then have "\<bar>?Y - ?X\<bar> = 100 * \<bar>binary64 (binary64 ?p * 100) - 100 * ?p\<bar>"
    by (simp only: abs_mult)
  ultimately have close: "\<bar>?Y - ?X\<bar> \<le> 30000 / 2 ^ 53"
    by linarith
  have "(of_nat n :: rat) < 2 ^ 32"
    using assms(3) by (metis of_nat_less_iff of_nat_numeral of_nat_power)
  then have "(30000 / 2 ^ 53 :: rat) * (2 * of_nat n) < 1"
    by simp
  then have gap: "(30000 / 2 ^ 53 :: rat) < 1 / (2 * of_nat n)"
    using assms(1) by (simp add: field_simps)
  let ?j = "\<lfloor>?X + 1 / 2\<rfloor>"
  have j: "of_int ?j - 1 / 2 \<le> ?X" "?X < of_int ?j + 1 / 2"
    by linarith+
  show ?thesis
  proof (cases "halfway ?X")
    case False
    have lo: "1 / (2 * of_nat n) \<le> \<bar>?X - (of_int (?j - 1) + 1 / 2)\<bar>"
      using assms(1) not_halfway [OF False] by (rule halfway_gap)
    have hi: "1 / (2 * of_nat n) \<le> \<bar>?X - (of_int ?j + 1 / 2)\<bar>"
      using assms(1) not_halfway [OF False] by (rule halfway_gap)
    have X: "of_int ?j - 1 / 2 + 1 / (2 * of_nat n) \<le> ?X"
      "?X \<le> of_int ?j + 1 / 2 - 1 / (2 * of_nat n)"
      using lo hi j by (simp_all add: abs_le_iff)
    have Y: "of_int ?j - 1 / 2 < ?Y" "?Y < of_int ?j + 1 / 2"
      using X close gap by linarith+
    have rY: "round_half_even ?Y = ?j"
      using Y by (rule round_half_even_nearest)
    have "(0 :: rat) < 1 / (2 * of_nat n)"
      using assms(1) by simp
    then have "of_int ?j - 1 / 2 < ?X"
      using X(1) by linarith
    then have rX: "round_half_even ?X = ?j"
      using j(2) by (rule round_half_even_nearest)
    have "\<bar>of_int (round_half_even ?X) - ?X\<bar> \<le> 1 / 2"
      by (rule round_half_even_error)
    then show ?thesis
      using False rX rY by simp
  next
    case True
    then have X: "?X = of_int \<lfloor>?X\<rfloor> + 1 / 2"
      by (simp add: halfway_def)
    have e: "\<bar>of_int (round_half_even ?Y) - ?Y\<bar> \<le> 1 / 2"
      by (rule round_half_even_error)
    have small: "(30000 / 2 ^ 53 :: rat) < 1 / 2"
      by simp
    have "of_int \<lfloor>?X\<rfloor> - 1 < (of_int (round_half_even ?Y) :: rat)"
      "(of_int (round_half_even ?Y) :: rat) < of_int \<lfloor>?X\<rfloor> + 2"
      using e close small X by linarith+
    then have "\<lfloor>?X\<rfloor> - 1 < round_half_even ?Y" "round_half_even ?Y < \<lfloor>?X\<rfloor> + 2"
      by (metis of_int_less_iff of_int_diff of_int_1, metis of_int_less_iff of_int_add of_int_numeral)
    then have "round_half_even ?Y = \<lfloor>?X\<rfloor> \<or> round_half_even ?Y = \<lfloor>?X\<rfloor> + 1"
      by linarith
    then have "\<bar>of_int (round_half_even ?Y) - ?X\<bar> \<le> 1 / 2"
      using X by (auto simp: abs_le_iff)
    then show ?thesis
      using True by simp
  qed
qed

subsection \<open>The churn rate shown\<close>

lemma round_half_even_nonneg: "0 \<le> s \<Longrightarrow> 0 \<le> round_half_even s"
  by (auto simp: round_half_even_def Let_def)

lemma sum_list_flags:
  fixes xs :: "rat list"
  shows "set xs \<subseteq> {0, 1} \<Longrightarrow> sum_list xs = of_nat (count_list xs 1)"
  by (induction xs) auto

lemma count_list_replicate: "count_list (replicate m v) w = (if v = w then m else 0)"
  by (induction m) auto

text \<open>
  C3, as amended. For a well-formed table of at least one and fewer than \<open>2 ^ 32\<close> rows
  whose \<open>Exited\<close> column holds only 0 and 1, with \<open>k\<close> rows equal to 1 out of \<open>n\<close>: the
  metric shows a number of two decimals that lies within 0.005 of \<open>100 \<times> k / n\<close>; whenever
  \<open>100 \<times> k / n\<close> is not exactly halfway between two such numbers, it is \<open>100 \<times> k / n\<close>
  rounded to two decimals. At a halfway value the binary64 arithmetic decides which of the
  two neighbours is shown.
\<close>

theorem churn_rate_display:
  assumes "wf_dataframe df"
    and "getitem df ''Exited'' = Inr (NumCol xs)"
    and "set xs \<subseteq> {0, 1}"
    and "0 < nrows df"
    and "nrows df < 2 ^ 32"
  shows "\<exists>d.
     metrics df =
       emit [St_columns 3, St_metric ''Total Customers'' (Num (of_nat (nrows df))),
             St_metric ''Churned Customers'' (Num (of_nat (count_list xs 1))),
             St_metric ''Churn Rate (%)'' (Str (fixed2 d))] \<and>
     \<bar>of_nat d / 100 - 100 * of_nat (count_list xs 1) / of_nat (nrows df)\<bar> \<le> (1 / 200 :: rat) \<and>
     (\<not> halfway (10000 * of_nat (count_list xs 1) / of_nat (nrows df)) \<longrightarrow>
        fixed2 d = exact_churn_rate_text (count_list xs 1) (nrows df))"
proof -
  let ?k = "count_list xs 1"
  let ?n = "nrows df"
  let ?X = "10000 * of_nat ?k / of_nat ?n :: rat"
  let ?y = "binary64 (binary64 (of_nat ?k / of_nat ?n) * 100)"
  let ?r = "round_half_even (?y * 100)"
  have len: "length xs = ?n"
    using getitem_length [OF assms(1,2)] by simp
  have k: "?k \<le> ?n"
    using count_le_length [of xs 1] len by simp
  have sum: "sum_list xs = of_nat ?k"
    using assms(3) by (rule sum_list_flags)
  have y: "0 \<le> ?y"
    using rate_error [of "of_nat ?k / of_nat ?n"] k assms(4) by simp
  then have r: "0 \<le> ?r"
    by (simp add: round_half_even_nonneg)
  have rate: "churn_rate df = Inr (Fin ?y)"
    using assms(2,4) by (simp add: churn_rate_def and_then_def mean_def sum len)
  have shown: "format_2f (Fin ?y) = fixed2 (nat ?r)"
    using y by simp
  have m: "metrics df =
       emit [St_columns 3, St_metric ''Total Customers'' (Num (of_nat ?n)),
             St_metric ''Churned Customers'' (Num (of_nat ?k)),
             St_metric ''Churn Rate (%)'' (Str (fixed2 (nat ?r)))]"
    using y
    by (simp add: metrics_def assms(2) rate and_then_def or_fault_def emit_def len_def sum)
  have digits: "\<bar>of_int ?r - ?X\<bar> \<le> 1 / 2"
    "\<not> halfway ?X \<longrightarrow> ?r = round_half_even ?X"
    using display_digits [OF assms(4) k assms(5)] by simp_all
  have "(of_nat (nat ?r) :: rat) = of_int ?r"
    using r by simp
  then have eq: "of_nat (nat ?r) / 100 - 100 * of_nat ?k / of_nat ?n = (of_int ?r - ?X) / (100 :: rat)"
    by (simp add: field_simps)
  have "\<bar>of_nat (nat ?r) / 100 - 100 * of_nat ?k / of_nat ?n :: rat\<bar> = \<bar>of_int ?r - ?X\<bar> / 100"
    unfolding eq by simp
  also have "\<dots> \<le> (1 / 2) / 100"
    using digits(1) by (rule divide_right_mono) simp
  finally have near:
    "\<bar>of_nat (nat ?r) / 100 - 100 * of_nat ?k / of_nat ?n :: rat\<bar> \<le> 1 / 200"
    by simp
  have "(0 :: rat) \<le> 100 * of_nat ?k / of_nat ?n"
    by simp
  then have "exact_churn_rate_text ?k ?n = fixed2 (nat (round_half_even ?X))"
    by (simp add: exact_churn_rate_text_def not_less [symmetric])
  then have same: "\<not> halfway ?X \<longrightarrow> fixed2 (nat ?r) = exact_churn_rate_text ?k ?n"
    using digits(2) by simp
  from m near same show ?thesis
    by (intro exI [of _ "nat ?r"]) simp
qed

lemma digit_chars:
  "char_of (48 :: nat) = CHR ''0''" "char_of (49 :: nat) = CHR ''1''"
  "char_of (50 :: nat) = CHR ''2''" "char_of (51 :: nat) = CHR ''3''"
  "char_of (52 :: nat) = CHR ''4''" "char_of (53 :: nat) = CHR ''5''"
  "char_of (54 :: nat) = CHR ''6''" "char_of (55 :: nat) = CHR ''7''"
  "char_of (56 :: nat) = CHR ''8''" "char_of (57 :: nat) = CHR ''9''"
  by (simp_all add: char_of_eq_iff)

lemmas text_eval =
  round_half_even_def Let_def fixed2_def two_digits_def three_digits_def show_nat.simps
  show_grouped.simps digit_chars

lemma floor160: "\<lfloor>2875 / 2 :: rat\<rfloor> = 1437"
  by (rule floor_unique) simp_all

lemma exact160: "exact_churn_rate_text 23 160 = ''14.38''"
  by (simp add: exact_churn_rate_text_def text_eval floor160)

lemma exact1000: "exact_churn_rate_text 203 1000 = ''20.30''"
  by (simp add: exact_churn_rate_text_def text_eval)

lemma halfup160: "fixed2 (nat \<lfloor>100 * (100 * 23 / 160) + 1 / 2 :: rat\<rfloor>) = ''14.38''"
  by (simp add: text_eval)

lemma table160_rate:
  "format_2f (Fin (binary64 (binary64 (23 / 160) * 100))) = ''14.37''"
  by code_simp

theorem churn_rate_display_witness:
  "metrics table1000 =
     emit [St_columns 3, St_metric ''Total Customers'' (Num 1000),
           St_metric ''Churned Customers'' (Num 203),
           St_metric ''Churn Rate (%)'' (Str ''20.30'')]"
proof -
  let ?xs = "replicate 203 1 @ replicate 797 (0 :: rat)"
  have k: "count_list ?xs 1 = 203"
    by (simp add: count_list_replicate)
  have n: "nrows table1000 = 1000"
    by (simp add: table1000_def)
  have "wf_dataframe table1000"
    by (simp add: wf_dataframe_def columns_def table1000_def)
  moreover have "getitem table1000 ''Exited'' = Inr (NumCol ?xs)"
    by (simp add: getitem_def table1000_def)
  moreover have "set ?xs \<subseteq> {0, 1}"
    by simp
  moreover have "0 < nrows table1000"
    by (simp add: n)
  moreover have "nrows table1000 < 2 ^ 32"
    by (simp add: n)
  ultimately have "\<exists>d.
     metrics table1000 =
       emit [St_columns 3, St_metric ''Total Customers'' (Num (of_nat (nrows table1000))),
             St_metric ''Churned Customers'' (Num (of_nat (count_list ?xs 1))),
             St_metric ''Churn Rate (%)'' (Str (fixed2 d))] \<and>
     \<bar>of_nat d / 100 - 100 * of_nat (count_list ?xs 1) / of_nat (nrows table1000)\<bar>
       \<le> (1 / 200 :: rat) \<and>
     (\<not> halfway (10000 * of_nat (count_list ?xs 1) / of_nat (nrows table1000)) \<longrightarrow>
        fixed2 d = exact_churn_rate_text (count_list ?xs 1) (nrows table1000))"
    by (rule churn_rate_display)
  then obtain d where d:
    "metrics table1000 =
       emit [St_columns 3, St_metric ''Total Customers'' (Num 1000),
             St_metric ''Churned Customers'' (Num 203),
             St_metric ''Churn Rate (%)'' (Str (fixed2 d))]"
    "\<not> halfway (10000 * 203 / 1000) \<longrightarrow> fixed2 d = exact_churn_rate_text 203 1000"
    unfolding k n by auto
  have "\<not> halfway (10000 * 203 / 1000)"
    by (simp add: halfway_def)
  then have "fixed2 d = ''20.30''"
    using d(2) exact1000 by simp
  then show ?thesis
    using d(1) by simp
qed

text \<open>
  C3, as the claim states it, fails: of 160 customers 23 churned, so \<open>100 \<times> k / n\<close> is
  14.375, which two decimals render as 14.38 (rounding the tie to even or upwards alike);
  the binary64 value computed by \<open>df['Exited'].mean() * 100\<close> lies just below 14.375 and
  the metric shows 14.37.
\<close>

theorem churn_rate_halfway_counterexample:
  "metrics table160 =
     emit [St_columns 3, St_metric ''Total Customers'' (Num 160),
           St_metric ''Churned Customers'' (Num 23),
           St_metric ''Churn Rate (%)'' (Str ''14.37'')] \<and>
   count_list (replicate 23 1 @ replicate 137 (0 :: rat)) 1 = 23 \<and>
   100 * 23 / 160 = (14375 / 1000 :: rat) \<and>
   exact_churn_rate_text 23 160 = ''14.38'' \<and>
   fixed2 (nat \<lfloor>100 * (100 * 23 / 160) + 1 / 2 :: rat\<rfloor>) = ''14.38''"
proof -
  have "churn_rate table160 = Inr (Fin (binary64 (binary64 (23 / 160) * 100)))"
    by (simp add: churn_rate_def getitem_def and_then_def mean_def table160_def
        sum_list_replicate)
  then have "metrics table160 =
     emit [St_columns 3, St_metric ''Total Customers'' (Num 160),
           St_metric ''Churned Customers'' (Num 23),
           St_metric ''Churn Rate (%)'' (Str ''14.37'')]"
    by (simp add: metrics_def getitem_def and_then_def or_fault_def emit_def len_def
        table160_rate table160_def sum_list_replicate del: format_2f.simps)
  then show ?thesis
    using exact160 halfup160 by (simp add: count_list_replicate)
qed

end
